theory Spec2Isabelle
  imports Main
begin

section \<open>JavaScript values and HTTP responses\<close>

text \<open>
  The protocol client (\<^verbatim>\<open>src/api/interviewApi.ts\<close>) reads parsed JSON bodies and tests
  fields for truthiness (\<^verbatim>\<open>if (data.detail)\<close>, \<^verbatim>\<open>error.detail || ...\<close>). A parsed body is
  a \<open>jsval\<close>; \<open>JUndef\<close> is what reading an absent property gives. Numbers are carried
  as integers: the client never computes with them.
\<close>

datatype jsval =
    JUndef
  | JNull
  | JBool bool
  | JNum int
  | JStr string
  | JArr "jsval list"
  | JObj "(string \<times> jsval) list"

text \<open>
  Errors are values. \<open>JsError v tag\<close> is the object built by \<^verbatim>\<open>new Error(v)\<close>, with
  \<open>tag\<close> the value of the \<^verbatim>\<open>isConcurrencyLimit\<close> property that \<^verbatim>\<open>createAvatarSession\<close>
  sets on it (absent, hence falsy, on every other error). \<open>TypeError\<close> is what reading a
  property of \<^verbatim>\<open>null\<close> or calling a missing method raises, \<open>SyntaxError\<close> what
  \<^verbatim>\<open>res.json()\<close> rejects with on a body that is not JSON, \<open>FetchError\<close> a rejected
  \<^verbatim>\<open>fetch\<close>.
\<close>

datatype js_error =
    JsError jsval bool
  | TypeError
  | SyntaxError
  | FetchError

fun isConcurrencyLimit :: "js_error \<Rightarrow> bool" where
  "isConcurrencyLimit (JsError v tag) = tag"
| "isConcurrencyLimit TypeError = False"
| "isConcurrencyLimit SyntaxError = False"
| "isConcurrencyLimit FetchError = False"

text \<open>The response of \<^verbatim>\<open>fetch\<close>: \<open>body\<close> is \<open>None\<close> when the payload is not JSON.\<close>

record http_response =
  ok :: bool
  statusText :: string
  body :: "jsval option"

fun truthy :: "jsval \<Rightarrow> bool" where
  "truthy JUndef = False"
| "truthy JNull = False"
| "truthy (JBool b) = b"
| "truthy (JNum n) = (n \<noteq> 0)"
| "truthy (JStr s) = (s \<noteq> [])"
| "truthy (JArr xs) = True"
| "truthy (JObj kvs) = True"

text \<open>
  Property read \<^verbatim>\<open>v.k\<close> for the keys the client uses (\<^verbatim>\<open>detail\<close>, \<^verbatim>\<open>session_id\<close>,
  \<^verbatim>\<open>livekit_url\<close>, \<^verbatim>\<open>livekit_token\<close>): it throws on \<^verbatim>\<open>null\<close> and \<^verbatim>\<open>undefined\<close>,
  and gives \<^verbatim>\<open>undefined\<close> on a primitive, an array or an object without the key.
\<close>

fun get_prop :: "jsval \<Rightarrow> string \<Rightarrow> js_error + jsval" where
  "get_prop JUndef k = Inl TypeError"
| "get_prop JNull k = Inl TypeError"
| "get_prop (JObj kvs) k = Inr (case map_of kvs k of None \<Rightarrow> JUndef | Some v \<Rightarrow> v)"
| "get_prop v k = Inr JUndef"

text \<open>\<^verbatim>\<open>a || b\<close>.\<close>

definition or_else :: "jsval \<Rightarrow> jsval \<Rightarrow> jsval" where
  "or_else a b = (if truthy a then a else b)"

text \<open>\<^verbatim>\<open>await res.json()\<close>.\<close>

definition json :: "http_response \<Rightarrow> js_error + jsval" where
  "json res = (case body res of None \<Rightarrow> Inl SyntaxError | Some v \<Rightarrow> Inr v)"

text \<open>\<^verbatim>\<open>await res.json().catch(() => ({ detail: res.statusText }))\<close>.\<close>

definition error_body :: "http_response \<Rightarrow> jsval" where
  "error_body res =
     (case json res of
        Inl e \<Rightarrow> JObj [(''detail'', JStr (statusText res))]
      | Inr v \<Rightarrow> v)"

text \<open>
  The branch every operation shares for a response that is not \<^verbatim>\<open>ok\<close>:
  \<^verbatim>\<open>throw new Error(error.detail || `<prefix>${res.statusText}`)\<close>.
\<close>

definition not_ok_error :: "string \<Rightarrow> http_response \<Rightarrow> js_error" where
  "not_ok_error prefix res =
     (case get_prop (error_body res) ''detail'' of
        Inl e \<Rightarrow> e
      | Inr d \<Rightarrow> JsError (or_else d (JStr (prefix @ statusText res))) False)"

section \<open>Strings: \<^verbatim>\<open>toLowerCase\<close> and \<^verbatim>\<open>includes\<close>\<close>

text \<open>
  \<^verbatim>\<open>toLowerCase\<close> on the ASCII letters; other bytes are left as they are. No character
  outside ASCII lower-cases to a letter of \<^verbatim>\<open>concurrency limit\<close> alone, so the test
  below is decided by the ASCII part.
\<close>

definition lower_char :: "char \<Rightarrow> char" where
  "lower_char c =
     (case map_of (zip ''ABCDEFGHIJKLMNOPQRSTUVWXYZ'' ''abcdefghijklmnopqrstuvwxyz'') c of
        Some l \<Rightarrow> l
      | None \<Rightarrow> c)"

definition toLowerCase :: "string \<Rightarrow> string" where
  "toLowerCase s = map lower_char s"

fun startsWith :: "string \<Rightarrow> string \<Rightarrow> bool" where
  "startsWith s [] = True"
| "startsWith [] (p # ps) = False"
| "startsWith (c # cs) (p # ps) = (c = p \<and> startsWith cs ps)"

fun str_includes :: "string \<Rightarrow> string \<Rightarrow> bool" where
  "str_includes [] sub = (sub = [])"
| "str_includes (c # cs) sub = (startsWith (c # cs) sub \<or> str_includes cs sub)"

section \<open>The session protocol client\<close>

text \<open>
  Every operation takes the settlement of its one \<^verbatim>\<open>fetch\<close> (\<open>None\<close>: the request
  itself was rejected) and returns what the \<^verbatim>\<open>async\<close> function settles with: \<open>Inl\<close> the
  thrown error, \<open>Inr\<close> the returned value.
\<close>

definition createInterviewSession :: "http_response option \<Rightarrow> js_error + jsval" where
  "createInterviewSession fetched =
     (case fetched of
        None \<Rightarrow> Inl FetchError
      | Some res \<Rightarrow>
          if \<not> ok res then Inl (not_ok_error ''Failed to create interview session: '' res)
          else
            (case json res of
               Inl e \<Rightarrow> Inl e
             | Inr data \<Rightarrow>
                 (case get_prop data ''detail'' of
                    Inl e \<Rightarrow> Inl e
                  | Inr d \<Rightarrow>
                      if truthy d then Inl (JsError d False)
                      else
                        (case get_prop data ''session_id'' of
                           Inl e \<Rightarrow> Inl e
                         | Inr sid \<Rightarrow>
                             if \<not> truthy sid
                             then Inl (JsError (JStr ''Missing session_id in response'') False)
                             else Inr data))))"

definition submitAnswer :: "http_response option \<Rightarrow> js_error + jsval" where
  "submitAnswer fetched =
     (case fetched of
        None \<Rightarrow> Inl FetchError
      | Some res \<Rightarrow>
          if \<not> ok res then Inl (not_ok_error ''Failed to submit answer: '' res)
          else json res)"

definition getQuestion :: "http_response option \<Rightarrow> js_error + jsval" where
  "getQuestion fetched =
     (case fetched of
        None \<Rightarrow> Inl FetchError
      | Some res \<Rightarrow>
          if \<not> ok res then Inl (not_ok_error ''Failed to get question: '' res)
          else json res)"

definition speakTTS :: "http_response option \<Rightarrow> js_error + jsval" where
  "speakTTS fetched =
     (case fetched of
        None \<Rightarrow> Inl FetchError
      | Some res \<Rightarrow>
          if \<not> ok res then Inl (not_ok_error ''Failed to generate TTS: '' res)
          else json res)"

definition completeSession :: "http_response option \<Rightarrow> js_error + jsval" where
  "completeSession fetched =
     (case fetched of
        None \<Rightarrow> Inl FetchError
      | Some res \<Rightarrow>
          if \<not> ok res then Inl (not_ok_error ''Failed to complete session: '' res)
          else json res)"

definition getSessionResults :: "http_response option \<Rightarrow> js_error + jsval" where
  "getSessionResults fetched =
     (case fetched of
        None \<Rightarrow> Inl FetchError
      | Some res \<Rightarrow>
          if \<not> ok res then Inl (not_ok_error ''Failed to get session results: '' res)
          else json res)"

text \<open>
  \<^verbatim>\<open>errorMessage.toLowerCase().includes("concurrency limit")\<close>, then the throw of the
  tagged or the plain error. \<^verbatim>\<open>toLowerCase\<close> exists on strings only: on any other truthy
  value the call itself raises a \<open>TypeError\<close>.
\<close>

definition throw_avatar_error :: "jsval \<Rightarrow> js_error" where
  "throw_avatar_error errorMessage =
     (case errorMessage of
        JStr m \<Rightarrow>
          if str_includes (toLowerCase m) ''concurrency limit''
          then JsError (JStr m) True
          else JsError (JStr m) False
      | _ \<Rightarrow> TypeError)"

text \<open>
  \<^verbatim>\<open>!data.livekit_url || !data.livekit_token\<close>: the token is read only when the URL is
  truthy.
\<close>

definition missing_connection_details :: "jsval \<Rightarrow> js_error + bool" where
  "missing_connection_details data =
     (case get_prop data ''livekit_url'' of
        Inl e \<Rightarrow> Inl e
      | Inr url \<Rightarrow>
          if \<not> truthy url then Inr True
          else
            (case get_prop data ''livekit_token'' of
               Inl e \<Rightarrow> Inl e
             | Inr token \<Rightarrow> Inr (\<not> truthy token)))"

definition createAvatarSession :: "http_response option \<Rightarrow> js_error + jsval" where
  "createAvatarSession fetched =
     (case fetched of
        None \<Rightarrow> Inl FetchError
      | Some res \<Rightarrow>
          if \<not> ok res then
            (case get_prop (error_body res) ''detail'' of
               Inl e \<Rightarrow> Inl e
             | Inr d \<Rightarrow>
                 Inl (throw_avatar_error
                        (or_else d (JStr (''Failed to create avatar session: '' @ statusText res)))))
          else
            (case json res of
               Inl e \<Rightarrow> Inl e
             | Inr data \<Rightarrow>
                 (case get_prop data ''detail'' of
                    Inl e \<Rightarrow> Inl e
                  | Inr d \<Rightarrow>
                      if truthy d then Inl (throw_avatar_error d)
                      else
                        (case missing_connection_details data of
                           Inl e \<Rightarrow> Inl e
                         | Inr missing \<Rightarrow>
                             if missing
                             then Inl (JsError
                                    (JStr ''Missing LiveKit connection details in response'')
                                    False)
                             else Inr data))))"

section \<open>The real-time media session controller (\<^verbatim>\<open>AvatarVideo\<close>)\<close>

text \<open>
  The component's refs and state, the tab's session storage, and a trace of what the
  component does to the outside: the backend call, the room calls, the data it publishes,
  warnings and alerts, and the pending \<^verbatim>\<open>setTimeout\<close> callbacks with their delays in
  milliseconds.
\<close>

datatype ConnectionState = Disconnected | Connecting | Connected

record Room =
  state :: ConnectionState

datatype rt_effect =
    CreateAvatarSessionCall
  | OnSessionCreated jsval
  | RoomConnect jsval jsval
  | RoomDisconnect
  | PublishData string string
  | ConsoleWarn string
  | Alert string

datatype rt_callback = OnConnected

record avatar_video =
  roomRef :: "Room option"
  isCreatingRef :: bool
  hasSessionRef :: bool
  isConnected :: bool
  showAudioEnableButton :: bool
  audioElementsRef :: "nat list"
  sessionStorage :: "(string \<times> string) list"
  effects :: "rt_effect list"
  rt_timeouts :: "(nat \<times> rt_callback) list"

text \<open>A freshly constructed component instance, before its mount effect runs.\<close>

definition new_instance :: "(string \<times> string) list \<Rightarrow> avatar_video" where
  "new_instance storage =
     \<lparr>roomRef = None, isCreatingRef = False, hasSessionRef = False, isConnected = False,
      showAudioEnableButton = False, audioElementsRef = [], sessionStorage = storage,
      effects = [], rt_timeouts = []\<rparr>"

text \<open>Truthiness of a \<^verbatim>\<open>string | null\<close>: \<^verbatim>\<open>null\<close> and the empty string are falsy.\<close>

fun truthy_str :: "string option \<Rightarrow> bool" where
  "truthy_str None = False"
| "truthy_str (Some s) = (s \<noteq> [])"

definition getItem :: "(string \<times> string) list \<Rightarrow> string \<Rightarrow> string option" where
  "getItem storage k = map_of storage k"

text \<open>
  \<^verbatim>\<open>speak(text)\<close>. The second argument is the rejection of \<^verbatim>\<open>publishData\<close>, if any.
  The result is the error the call rejects with (\<open>None\<close>: it resolves) and the state it
  leaves. The payload is the UTF-8 JSON of
  \<^verbatim>\<open>{event_type: "avatar.speak_text", data: {text}}\<close>, recorded by its text.
\<close>

definition speak :: "string \<Rightarrow> js_error option \<Rightarrow> avatar_video \<Rightarrow> js_error option \<times> avatar_video" where
  "speak text publish_failure w =
     (case roomRef w of
        None \<Rightarrow>
          (None, w\<lparr>effects := effects w @
                     [ConsoleWarn ''Room not initialized. Cannot send speak event.'']\<rparr>)
      | Some r \<Rightarrow>
          if state r \<noteq> Connected then
            (None, w\<lparr>effects := effects w @
                       [ConsoleWarn ''Room not connected. Cannot send speak event.'']\<rparr>)
          else
            (case publish_failure of
               Some e \<Rightarrow> (Some e, w)
             | None \<Rightarrow>
                 (None, w\<lparr>effects := effects w @ [PublishData text ''agent-control'']\<rparr>)))"

text \<open>
  \<^verbatim>\<open>disconnect()\<close>. The first argument is the rejection of \<^verbatim>\<open>room.disconnect()\<close>, if
  any; it is rethrown before anything is reset.
\<close>

definition reset_refs :: "avatar_video \<Rightarrow> avatar_video" where
  "reset_refs w =
     w\<lparr>roomRef := None, isConnected := False, hasSessionRef := False,
       isCreatingRef := False, audioElementsRef := []\<rparr>"

definition disconnect :: "js_error option \<Rightarrow> avatar_video \<Rightarrow> js_error option \<times> avatar_video" where
  "disconnect teardown_failure w =
     (case roomRef w of
        None \<Rightarrow> (None, reset_refs w)
      | Some r \<Rightarrow>
          if state r = Connected then
            (case teardown_failure of
               Some e \<Rightarrow> (Some e, w\<lparr>effects := effects w @ [RoomDisconnect]\<rparr>)
             | None \<Rightarrow> (None, reset_refs (w\<lparr>effects := effects w @ [RoomDisconnect]\<rparr>)))
          else (None, reset_refs w))"

text \<open>The \<^verbatim>\<open>catch\<close> of \<^verbatim>\<open>connectAvatar\<close> (the component is still mounted).\<close>

definition connect_catch :: "js_error \<Rightarrow> avatar_video \<Rightarrow> avatar_video" where
  "connect_catch e w =
     (let w1 = w\<lparr>isCreatingRef := False\<rparr> in
      if isConcurrencyLimit e
      then w1\<lparr>effects := effects w1 @
                 [Alert ''Too many active sessions. Please wait a moment and try again.'']\<rparr>
      else w1)"

text \<open>
  \<^verbatim>\<open>connectAvatar\<close>, run to its end while the component stays mounted: \<open>fetched\<close> is
  the settlement of the backend request, \<open>connect_failure\<close> the rejection of
  \<^verbatim>\<open>room.connect\<close>, if any. A connection that opens fires the room's \<^verbatim>\<open>Connected\<close>
  event, whose handler sets \<^verbatim>\<open>isConnected\<close> and schedules \<^verbatim>\<open>onConnected\<close> 500 ms later.
\<close>

definition connectAvatar :: "http_response option \<Rightarrow> js_error option \<Rightarrow> avatar_video \<Rightarrow> avatar_video" where
  "connectAvatar fetched connect_failure w =
     (if isCreatingRef w then w
      else
        let w1 = w\<lparr>isCreatingRef := True, effects := effects w @ [CreateAvatarSessionCall]\<rparr> in
        (case createAvatarSession fetched of
           Inl e \<Rightarrow> connect_catch e w1
         | Inr data \<Rightarrow>
             (case missing_connection_details data of
                Inl e \<Rightarrow> connect_catch e w1
              | Inr missing \<Rightarrow>
                  if missing then w1\<lparr>isCreatingRef := False\<rparr>
                  else
                    (case (get_prop data ''livekit_url'', get_prop data ''livekit_token'') of
                       (Inr url, Inr token) \<Rightarrow>
                         let w2 = w1\<lparr>hasSessionRef := True,
                                    roomRef := Some \<lparr>state = Disconnected\<rparr>,
                                    effects := effects w1 @
                                      [OnSessionCreated data, RoomConnect url token]\<rparr> in
                         (case connect_failure of
                            Some e \<Rightarrow> connect_catch e w2
                          | None \<Rightarrow>
                              w2\<lparr>roomRef := Some \<lparr>state = Connected\<rparr>,
                                 isConnected := True,
                                 rt_timeouts := rt_timeouts w2 @ [(500, OnConnected)],
                                 isCreatingRef := False\<rparr>)
                     | _ \<Rightarrow> connect_catch TypeError w1))))"

text \<open>The mount effect (\<^verbatim>\<open>useEffect(..., [])\<close>).\<close>

definition mountEffect :: "http_response option \<Rightarrow> js_error option \<Rightarrow> avatar_video \<Rightarrow> avatar_video" where
  "mountEffect fetched connect_failure w =
     (if isCreatingRef w \<or> hasSessionRef w then w
      else if truthy_str (getItem (sessionStorage w) ''avatarSessionToken'')
      then w\<lparr>hasSessionRef := True\<rparr>
      else connectAvatar fetched connect_failure w)"

text \<open>A list of \<^verbatim>\<open>speak\<close> calls, stopping at the first one that rejects.\<close>

fun speak_all :: "(string \<times> js_error option) list \<Rightarrow> avatar_video \<Rightarrow> js_error option \<times> avatar_video" where
  "speak_all [] w = (None, w)"
| "speak_all ((text, publish_failure) # rest) w =
     (case speak text publish_failure w of
        (Some e, w') \<Rightarrow> (Some e, w')
      | (None, w') \<Rightarrow> speak_all rest w')"

section \<open>The interview session state machine (\<^verbatim>\<open>InterviewRoom\<close>)\<close>

text \<open>
  The typed results the orchestrator receives from the protocol client. Numbers it never
  computes with are integers here.
\<close>

record Feedback =
  feedback_score :: int
  missed_points :: "string list"
  red_flags :: "string list"
  summary :: string

record SubmitAnswerResponse =
  transcript :: string
  score :: int
  feedback :: Feedback
  current_question :: string
  next_question :: "string option"
  question_index :: int
  is_complete :: bool

record SessionResultsResponse =
  performance_score :: int
  mentor_feedback :: string
  time_elapsed_sec :: int
  time_elapsed_formatted :: string
  skill_breakdown :: "(string \<times> int) list option"
  questions_answered :: int
  average_score :: int

record Week =
  week_no :: int
  title :: string
  description :: string
  concepts :: "jsval list"

record InterviewSessionResponse =
  session_id :: string
  week :: Week
  total_questions :: int

record QuestionResponse =
  question_text :: string
  echoed_question_index :: int

record TTSResponse =
  audio_url :: "string option"
  audio_base64 :: "string option"

datatype phase = Idle | Asking | Listening | Processing | Completing

text \<open>
  A recording is the list of its chunks' sizes. \<open>Stopping\<close> is a recorder on which
  \<^verbatim>\<open>stop()\<close> was called (its \<^verbatim>\<open>state\<close> is already \<^verbatim>\<open>"inactive"\<close>) and whose
  \<^verbatim>\<open>stop\<close> event is still to come.
\<close>

type_synonym blob = "nat list"

datatype recorder = Recording | Stopping | Inactive

datatype api_call =
    CreateInterviewSessionCall int
  | GetQuestionCall string int
  | SpeakTTSCall string
  | SubmitAnswerCall string blob
  | CompleteSessionCall string
  | GetSessionResultsCall string

datatype callback = CompleteAndFetchResults string | SettleToIdle

text \<open>
  The component's state and refs, the trace of protocol calls it has issued, and the
  pending \<^verbatim>\<open>setTimeout\<close> callbacks with their delays in milliseconds. \<open>audioRef\<close> holds
  the \<^verbatim>\<open>src\<close> of the audio element. Console output is not part of the state.
\<close>

record interview =
  hasStarted :: bool
  hasFinished :: bool
  isListening :: bool
  currentQuestionIndex :: int
  timer :: nat
  interviewState :: phase
  sessionId :: "string option"
  weekData :: "Week option"
  currentQuestion :: string
  sessionResults :: "SessionResultsResponse option"
  apiConnectionError :: bool
  isInitializing :: bool
  mediaRecorderRef :: "recorder option"
  audioChunksRef :: blob
  audioRef :: "string option"
  calls :: "api_call list"
  timeouts :: "(nat \<times> callback) list"

definition WEEK_NUMBER :: int where
  "WEEK_NUMBER = 4"

definition initial_interview :: interview where
  "initial_interview =
     \<lparr>hasStarted = False, hasFinished = False, isListening = False,
      currentQuestionIndex = 0, timer = 0, interviewState = Idle, sessionId = None,
      weekData = None, currentQuestion = [], sessionResults = None,
      apiConnectionError = False, isInitializing = False, mediaRecorderRef = None,
      audioChunksRef = [], audioRef = None, calls = [], timeouts = []\<rparr>"

text \<open>
  A playback attempt settles in two places: the \<^verbatim>\<open>speakTTS\<close> request, and
  \<^verbatim>\<open>audio.play()\<close> (\<open>Some e\<close>: it rejects with \<open>e\<close>, as on a decode error or a blocked
  autoplay).
\<close>

type_synonym playback = "(js_error + TTSResponse) \<times> js_error option"

text \<open>
  The \<^verbatim>\<open>try\<close> block of \<^verbatim>\<open>playTTSAudio\<close>: the error it throws, if any, and the state at
  that point.
\<close>

definition playTTSAudio_try :: "string \<Rightarrow> playback \<Rightarrow> interview \<Rightarrow> js_error option \<times> interview" where
  "playTTSAudio_try text pb s =
     (let s1 = s\<lparr>calls := calls s @ [SpeakTTSCall text]\<rparr> in
      case fst pb of
        Inl e \<Rightarrow> (Some e, s1)
      | Inr ttsResponse \<Rightarrow>
          if truthy_str (audio_url ttsResponse) then
            (case audioRef s1 of
               Some a \<Rightarrow> (snd pb, s1\<lparr>audioRef := audio_url ttsResponse\<rparr>)
             | None \<Rightarrow> (snd pb, s1\<lparr>audioRef := audio_url ttsResponse\<rparr>))
          else if truthy_str (audio_base64 ttsResponse) then
            (snd pb,
             s1\<lparr>audioRef := map_option (\<lambda>b. ''data:audio/mpeg;base64,'' @ b)
                                (audio_base64 ttsResponse)\<rparr>)
          else (None, s1))"

text \<open>\<^verbatim>\<open>playTTSAudio\<close>: the \<^verbatim>\<open>catch\<close> logs the error and returns.\<close>

definition playTTSAudio :: "string \<Rightarrow> playback \<Rightarrow> interview \<Rightarrow> js_error option \<times> interview" where
  "playTTSAudio text pb s =
     (case playTTSAudio_try text pb s of
        (Some e, s') \<Rightarrow> (None, s')
      | (None, s') \<Rightarrow> (None, s'))"

text \<open>
  \<^verbatim>\<open>initializeSession\<close>, given the settlements of \<^verbatim>\<open>createInterviewSession\<close>, of
  \<^verbatim>\<open>getQuestion\<close> and of the playback. The \<^verbatim>\<open>finally\<close> clears \<^verbatim>\<open>isInitializing\<close> on
  every path.
\<close>

definition initializeSession ::
  "(js_error + InterviewSessionResponse) \<Rightarrow> (js_error + QuestionResponse) \<Rightarrow> playback \<Rightarrow>
   interview \<Rightarrow> bool \<times> interview" where
  "initializeSession created question pb s =
     (let s0 = s\<lparr>isInitializing := True, apiConnectionError := False,
                  calls := calls s @ [CreateInterviewSessionCall WEEK_NUMBER]\<rparr> in
      case created of
        Inl e \<Rightarrow> (False, s0\<lparr>apiConnectionError := True, isInitializing := False\<rparr>)
      | Inr response \<Rightarrow>
          let s1 = s0\<lparr>sessionId := Some (session_id response),
                       weekData := Some (week response),
                       calls := calls s0 @ [GetQuestionCall (session_id response) 0]\<rparr> in
          (case question of
             Inl e \<Rightarrow> (False, s1\<lparr>apiConnectionError := True, isInitializing := False\<rparr>)
           | Inr questionResponse \<Rightarrow>
               let s2 = s1\<lparr>currentQuestion := question_text questionResponse,
                            currentQuestionIndex := 0\<rparr> in
               (case playTTSAudio (question_text questionResponse) pb s2 of
                  (Some e, s3) \<Rightarrow>
                    (False, s3\<lparr>apiConnectionError := True, isInitializing := False\<rparr>)
                | (None, s3) \<Rightarrow>
                    (True, s3\<lparr>interviewState := Idle, apiConnectionError := False,
                              isInitializing := False\<rparr>))))"

text \<open>The start button: \<^verbatim>\<open>if (await initializeSession()) setHasStarted(true)\<close>.\<close>

definition startClicked ::
  "(js_error + InterviewSessionResponse) \<Rightarrow> (js_error + QuestionResponse) \<Rightarrow> playback \<Rightarrow>
   interview \<Rightarrow> interview" where
  "startClicked created question pb s =
     (case initializeSession created question pb s of
        (True, s') \<Rightarrow> s'\<lparr>hasStarted := True\<rparr>
      | (False, s') \<Rightarrow> s')"

text \<open>
  \<^verbatim>\<open>handleUserResponse\<close>, given the settlement of \<^verbatim>\<open>submitAnswer\<close> and of the playback
  of the next question. Everything it can throw is inside its \<^verbatim>\<open>try\<close>, so it always
  resolves; the result is the state it leaves. The source reads \<^verbatim>\<open>sessionId\<close> as of the
  render in which the recording started; the model reads the current one, which is the
  same unless the interview was reset in between. The guard \<^verbatim>\<open>!sessionId\<close> is the test
  for \<open>None\<close>: the identifier is only ever \<^verbatim>\<open>null\<close> or the \<^verbatim>\<open>session_id\<close> of a created
  session, which \<^verbatim>\<open>createInterviewSession\<close> refuses when it is empty.
\<close>

definition handleUserResponse ::
  "blob \<Rightarrow> (js_error + SubmitAnswerResponse) \<Rightarrow> playback \<Rightarrow> interview \<Rightarrow> interview" where
  "handleUserResponse audioBlob submitted pb s =
     (case sessionId s of
        None \<Rightarrow> s
      | Some sid \<Rightarrow>
          let s1 = s\<lparr>calls := calls s @ [SubmitAnswerCall sid audioBlob]\<rparr> in
          (case submitted of
             Inl e \<Rightarrow> s1\<lparr>interviewState := Idle\<rparr>
           | Inr data \<Rightarrow>
               if is_complete data then
                 s1\<lparr>interviewState := Completing,
                    timeouts := timeouts s1 @ [(2500, CompleteAndFetchResults sid)]\<rparr>
               else if truthy_str (next_question data) then
                 (case next_question data of
                    None \<Rightarrow> s1
                  | Some q \<Rightarrow>
                      let s2 = s1\<lparr>currentQuestion := q,
                                   currentQuestionIndex := question_index data,
                                   interviewState := Asking\<rparr> in
                      (case playTTSAudio q pb s2 of
                         (Some e, s3) \<Rightarrow> s3\<lparr>interviewState := Idle\<rparr>
                       | (None, s3) \<Rightarrow>
                           s3\<lparr>timeouts := timeouts s3 @ [(1000, SettleToIdle)]\<rparr>))
               else s1))"

text \<open>
  The callback scheduled on completion: \<^verbatim>\<open>completeSession\<close>, then
  \<^verbatim>\<open>getSessionResults\<close>, then the results and the finished flag. Nothing catches a
  rejection here: \<open>Some e\<close> is the unhandled rejection, and the state stays as it was at
  the throw.
\<close>

definition completeAndFetchResults ::
  "string \<Rightarrow> (js_error + bool) \<Rightarrow> (js_error + SessionResultsResponse) \<Rightarrow> interview \<Rightarrow>
   js_error option \<times> interview" where
  "completeAndFetchResults sid completed fetched s =
     (let s1 = s\<lparr>calls := calls s @ [CompleteSessionCall sid]\<rparr> in
      case completed of
        Inl e \<Rightarrow> (Some e, s1)
      | Inr ack \<Rightarrow>
          let s2 = s1\<lparr>calls := calls s1 @ [GetSessionResultsCall sid]\<rparr> in
          (case fetched of
             Inl e \<Rightarrow> (Some e, s2)
           | Inr results \<Rightarrow>
               (None, s2\<lparr>sessionResults := Some results, hasFinished := True\<rparr>)))"

text \<open>
  A pending timeout fires once: it leaves the pending list and its callback runs. The two
  settlements are those of \<^verbatim>\<open>completeSession\<close> and \<^verbatim>\<open>getSessionResults\<close>, which only the
  completion callback uses.
\<close>

definition run_callback ::
  "callback \<Rightarrow> (js_error + bool) \<Rightarrow> (js_error + SessionResultsResponse) \<Rightarrow> interview \<Rightarrow>
   js_error option \<times> interview" where
  "run_callback cb completed fetched s =
     (case cb of
        CompleteAndFetchResults sid \<Rightarrow> completeAndFetchResults sid completed fetched s
      | SettleToIdle \<Rightarrow> (None, s\<lparr>interviewState := Idle\<rparr>))"

definition fire_timeout ::
  "nat \<Rightarrow> (js_error + bool) \<Rightarrow> (js_error + SessionResultsResponse) \<Rightarrow> interview \<Rightarrow>
   js_error option \<times> interview" where
  "fire_timeout i completed fetched s =
     (if i < length (timeouts s)
      then run_callback (snd (timeouts s ! i)) completed fetched
             (s\<lparr>timeouts := take i (timeouts s) @ drop (Suc i) (timeouts s)\<rparr>)
      else (None, s))"

text \<open>
  \<^verbatim>\<open>toggleMic\<close>. The argument is the rejection of \<^verbatim>\<open>getUserMedia\<close>, if any (the
  start branch alone asks for the microphone).
\<close>

definition toggleMic :: "js_error option \<Rightarrow> interview \<Rightarrow> interview" where
  "toggleMic mic_failure s =
     (if interviewState s = Asking \<or> interviewState s = Completing then s
      else if \<not> isListening s then
        let s1 = s\<lparr>isListening := True, interviewState := Listening\<rparr> in
        (case mic_failure of
           Some e \<Rightarrow> s1\<lparr>isListening := False, interviewState := Idle\<rparr>
         | None \<Rightarrow> s1\<lparr>mediaRecorderRef := Some Recording, audioChunksRef := []\<rparr>)
      else
        let s1 = s\<lparr>isListening := False, interviewState := Processing\<rparr> in
        (case mediaRecorderRef s1 of
           Some Recording \<Rightarrow> s1\<lparr>mediaRecorderRef := Some Stopping\<rparr>
         | _ \<Rightarrow> s1))"

text \<open>\<^verbatim>\<open>recorder.ondataavailable\<close>, for a chunk of the given size.\<close>

definition ondataavailable :: "nat \<Rightarrow> interview \<Rightarrow> interview" where
  "ondataavailable sz s =
     (if sz > 0 then s\<lparr>audioChunksRef := audioChunksRef s @ [sz]\<rparr> else s)"

text \<open>\<^verbatim>\<open>recorder.onstop\<close>: the answer is submitted only when something was recorded.\<close>

definition onstop :: "(js_error + SubmitAnswerResponse) \<Rightarrow> playback \<Rightarrow> interview \<Rightarrow> interview" where
  "onstop submitted pb s =
     (let s1 = s\<lparr>mediaRecorderRef := Some Inactive\<rparr> in
      if audioChunksRef s1 \<noteq> [] then handleUserResponse (audioChunksRef s1) submitted pb s1
      else s1)"

text \<open>The one-second interval, which runs while the session is started and not finished.\<close>

definition tick :: "interview \<Rightarrow> interview" where
  "tick s = (if hasStarted s \<and> \<not> hasFinished s then s\<lparr>timer := timer s + 1\<rparr> else s)"

definition resetInterview :: "interview \<Rightarrow> interview" where
  "resetInterview s =
     s\<lparr>hasStarted := False, hasFinished := False, currentQuestionIndex := 0, timer := 0,
       interviewState := Idle, sessionId := None, weekData := None, currentQuestion := [],
       sessionResults := None, apiConnectionError := False, isInitializing := False,
       audioRef := None\<rparr>"

text \<open>
  A session's answer turns in order: each is the recording handed to
  \<^verbatim>\<open>handleUserResponse\<close> with the settlements it meets. \<open>index_trace\<close> lists the value of
  \<^verbatim>\<open>currentQuestionIndex\<close> after each turn, \<open>assigned_indices\<close> the \<^verbatim>\<open>question_index\<close>
  of each result that passes the guards in front of \<^verbatim>\<open>setCurrentQuestionIndex\<close>: a result
  without the completion flag that carries a next question.
\<close>

type_synonym turn = "blob \<times> (js_error + SubmitAnswerResponse) \<times> playback"

fun index_trace :: "turn list \<Rightarrow> interview \<Rightarrow> int list" where
  "index_trace [] s = []"
| "index_trace ((audioBlob, submitted, pb) # rest) s =
     (let s' = handleUserResponse audioBlob submitted pb s
      in currentQuestionIndex s' # index_trace rest s')"

fun assigned_indices :: "turn list \<Rightarrow> int list" where
  "assigned_indices [] = []"
| "assigned_indices ((audioBlob, Inl e, pb) # rest) = assigned_indices rest"
| "assigned_indices ((audioBlob, Inr data, pb) # rest) =
     (if \<not> is_complete data \<and> truthy_str (next_question data)
      then question_index data # assigned_indices rest
      else assigned_indices rest)"

section \<open>Scenario data\<close>

text \<open>
  Concrete settlements and states for the scenarios the theorems are run on: a successful
  playback, the session of scenario 1 once started, and answers that continue, finish or
  carry neither a next question nor the completion flag.
\<close>

definition playback_ok :: playback where
  "playback_ok = (Inr \<lparr>audio_url = Some ''https://cdn.example/q.mp3'', audio_base64 = None\<rparr>, None)"

definition playback_blocked :: playback where
  "playback_blocked =
     (Inr \<lparr>audio_url = Some ''https://cdn.example/q.mp3'', audio_base64 = None\<rparr>,
      Some (JsError (JStr ''NotAllowedError'') False))"

definition scenario_week :: Week where
  "scenario_week = \<lparr>week_no = 4, title = ''X'', description = [], concepts = [JStr ''A'', JStr ''B'']\<rparr>"

definition scenario_session :: interview where
  "scenario_session =
     startClicked
       (Inr \<lparr>session_id = ''s1'', week = scenario_week, total_questions = 2\<rparr>)
       (Inr \<lparr>question_text = ''Q1'', echoed_question_index = 0\<rparr>)
       playback_ok initial_interview"

definition no_feedback :: Feedback where
  "no_feedback = \<lparr>feedback_score = 7, missed_points = [], red_flags = [], summary = ''ok''\<rparr>"

definition next_answer :: SubmitAnswerResponse where
  "next_answer =
     \<lparr>transcript = ''a1'', score = 7, feedback = no_feedback, current_question = ''Q1'',
      next_question = Some ''Q2'', question_index = 1, is_complete = False\<rparr>"

definition final_answer :: SubmitAnswerResponse where
  "final_answer =
     \<lparr>transcript = ''a2'', score = 8, feedback = no_feedback, current_question = ''Q2'',
      next_question = None, question_index = 1, is_complete = True\<rparr>"

definition stalled_answer :: SubmitAnswerResponse where
  "stalled_answer =
     \<lparr>transcript = ''a1'', score = 7, feedback = no_feedback, current_question = ''Q1'',
      next_question = None, question_index = 1, is_complete = False\<rparr>"

definition scenario_results :: SessionResultsResponse where
  "scenario_results =
     \<lparr>performance_score = 75, mentor_feedback = ''good'', time_elapsed_sec = 90,
      time_elapsed_formatted = ''01:30'', skill_breakdown = None, questions_answered = 2,
      average_score = 7\<rparr>"

definition regressing_turns :: "turn list" where
  "regressing_turns =
     [([3], Inr (next_answer\<lparr>question_index := 2\<rparr>), playback_ok),
      ([4], Inr (next_answer\<lparr>next_question := Some ''Q3'', question_index := 1\<rparr>), playback_ok)]"

definition advancing_turns :: "turn list" where
  "advancing_turns =
     [([3], Inr next_answer, playback_ok),
      ([2], Inl FetchError, playback_ok),
      ([5], Inr (stalled_answer\<lparr>question_index := 7\<rparr>), playback_ok),
      ([4], Inr (next_answer\<lparr>next_question := Some ''Q3'', question_index := 2\<rparr>),
       playback_blocked),
      ([6], Inr final_answer, playback_ok)]"

definition detail_response :: http_response where
  "detail_response =
     \<lparr>ok = True, statusText = ''OK'',
      body = Some (JObj [(''detail'', JStr ''Session not found'')])\<rparr>"



definition avatar_response :: http_response where
  "avatar_response =
     \<lparr>ok = True, statusText = ''OK'',
      body = Some (JObj [(''session_token'', JStr ''t1''), (''session_id'', JStr ''a1''),
                         (''livekit_url'', JStr ''wss://rooms.example''),
                         (''livekit_token'', JStr ''jwt''), (''room_name'', JStr ''r1'')])\<rparr>"

definition cached_storage :: "(string \<times> string) list" where
  "cached_storage = [(''avatarSessionToken'', ''tok-1'')]"

definition connected_instance :: avatar_video where
  "connected_instance = mountEffect (Some avatar_response) None (new_instance [])"

definition cached_instance :: avatar_video where
  "cached_instance = mountEffect (Some avatar_response) None (new_instance cached_storage)"

section \<open>Facts about the protocol client\<close>








text \<open>
  C3. The claim: every operation of the client treats a success response that carries an
  error-detail field as a failure. On the code, the response \<^verbatim>\<open>200 {"detail": "Session
  not found"}\<close> is thrown by \<^verbatim>\<open>createInterviewSession\<close> and \<^verbatim>\<open>createAvatarSession\<close>, and
  returned as the result by \<^verbatim>\<open>submitAnswer\<close>, \<^verbatim>\<open>getQuestion\<close>, \<^verbatim>\<open>speakTTS\<close>,
  \<^verbatim>\<open>completeSession\<close> and \<^verbatim>\<open>getSessionResults\<close>.
\<close>

theorem error_detail_returned_as_success:
  "submitAnswer (Some detail_response) = Inr (JObj [(''detail'', JStr ''Session not found'')])
   \<and> getQuestion (Some detail_response) = Inr (JObj [(''detail'', JStr ''Session not found'')])
   \<and> speakTTS (Some detail_response) = Inr (JObj [(''detail'', JStr ''Session not found'')])
   \<and> completeSession (Some detail_response) = Inr (JObj [(''detail'', JStr ''Session not found'')])
   \<and> getSessionResults (Some detail_response)
       = Inr (JObj [(''detail'', JStr ''Session not found'')])
   \<and> createInterviewSession (Some detail_response)
       = Inl (JsError (JStr ''Session not found'') False)
   \<and> createAvatarSession (Some detail_response)
       = Inl (JsError (JStr ''Session not found'') False)"
  by (simp add: detail_response_def submitAnswer_def getQuestion_def speakTTS_def
      completeSession_def getSessionResults_def createInterviewSession_def
      createAvatarSession_def json_def throw_avatar_error_def toLowerCase_def lower_char_def)



section \<open>Facts about the real-time controller\<close>

lemma disconnect_without_connection:
  assumes "roomRef w = None \<or> (\<exists>r. roomRef w = Some r \<and> state r \<noteq> Connected)"
  shows "disconnect t w = (None, reset_refs w)"
  using assms by (auto simp: disconnect_def)

lemma disconnect_end_state:
  assumes "disconnect t w = (None, w')"
  shows "roomRef w' = None \<and> \<not> isConnected w' \<and> \<not> hasSessionRef w' \<and> \<not> isCreatingRef w'
         \<and> audioElementsRef w' = [] \<and> sessionStorage w' = sessionStorage w"
  using assms
  by (auto simp: disconnect_def reset_refs_def split: option.splits if_splits)

lemma reset_refs_fixed:
  assumes "roomRef w = None" and "\<not> isConnected w" and "\<not> hasSessionRef w"
    and "\<not> isCreatingRef w" and "audioElementsRef w = []"
  shows "reset_refs w = w"
  using assms by (simp add: reset_refs_def)

lemma disconnect_again:
  assumes "disconnect t w = (None, w')"
  shows "disconnect t' w' = (None, w')"
proof -
  from disconnect_end_state [OF assms]
  have "roomRef w' = None" and "reset_refs w' = w'"
    by (simp_all add: reset_refs_fixed)
  then show ?thesis by (simp add: disconnect_def)
qed

lemma connectAvatar_calls_backend:
  assumes "\<not> isCreatingRef w"
  shows "take (Suc (length (effects w))) (effects (connectAvatar fetched c w))
           = effects w @ [CreateAvatarSessionCall]"
  using assms
  by (auto simp: connectAvatar_def connect_catch_def Let_def
      split: sum.splits option.splits prod.splits)

lemma speak_all_without_room:
  "roomRef w = None \<Longrightarrow>
   speak_all xs w =
     (None, w\<lparr>effects := effects w @
                 map (\<lambda>x. ConsoleWarn ''Room not initialized. Cannot send speak event.'') xs\<rparr>)"
proof (induction xs arbitrary: w)
  case Nil
  then show ?case by simp
next
  case (Cons x xs)
  obtain msg p where x: "x = (msg, p)" by (cases x)
  let ?w = "w\<lparr>effects := effects w @
                 [ConsoleWarn ''Room not initialized. Cannot send speak event.'']\<rparr>"
  from Cons.prems have step: "speak msg p w = (None, ?w)" by (simp add: speak_def)
  have "roomRef ?w = None" using Cons.prems by simp
  from Cons.IH [OF this] step x show ?case by simp
qed

lemma disconnect_connected:
  assumes "roomRef w = Some r" and "state r = Connected"
  shows "disconnect None w = (None, reset_refs (w\<lparr>effects := effects w @ [RoomDisconnect]\<rparr>))"
    and "disconnect (Some e) w = (Some e, w\<lparr>effects := effects w @ [RoomDisconnect]\<rparr>)"
  using assms by (simp_all add: disconnect_def)

lemma disconnect_effects:
  assumes "disconnect t w = (None, w')"
  shows "effects w' =
           (case roomRef w of
              None \<Rightarrow> effects w
            | Some r \<Rightarrow> if state r = Connected then effects w @ [RoomDisconnect] else effects w)"
  using assms
  by (auto simp: disconnect_def reset_refs_def split: option.splits if_splits)

text \<open>
  C6. \<^verbatim>\<open>disconnect()\<close> is idempotent. With no room, or a room that is not connected, it
  makes no teardown call and resolves, leaving the refs reset. With a connected room it
  calls \<^verbatim>\<open>room.disconnect()\<close> once: when that succeeds it resolves with the refs reset,
  when that rejects it rethrows and resets nothing. Whenever a call resolves, its end state
  has the room handle cleared, the connected flag off, both guard flags off and no
  attached audio elements, and its trace is the one before with the teardown call added
  exactly when a connected room was held; a second call on that state resolves too,
  whatever the teardown would have done, makes no teardown call and leaves exactly the
  same state.
\<close>

theorem disconnect_idempotent:
  "(roomRef w = None \<or> (\<exists>r. roomRef w = Some r \<and> state r \<noteq> Connected)
      \<longrightarrow> disconnect t w = (None, reset_refs w)
          \<and> effects (snd (disconnect t w)) = effects w)
   \<and> (roomRef w = Some r \<and> state r = Connected
      \<longrightarrow> disconnect None w
            = (None, reset_refs (w\<lparr>effects := effects w @ [RoomDisconnect]\<rparr>))
          \<and> disconnect (Some e) w = (Some e, w\<lparr>effects := effects w @ [RoomDisconnect]\<rparr>))
   \<and> (disconnect t w = (None, w')
      \<longrightarrow> roomRef w' = None \<and> \<not> isConnected w' \<and> \<not> hasSessionRef w'
          \<and> \<not> isCreatingRef w' \<and> audioElementsRef w' = []
          \<and> effects w' =
              (case roomRef w of
                 None \<Rightarrow> effects w
               | Some r \<Rightarrow>
                   if state r = Connected then effects w @ [RoomDisconnect] else effects w)
          \<and> disconnect t' w' = (None, w')
          \<and> effects (snd (disconnect t' w')) = effects w')"
proof -
  have "disconnect t w = (None, reset_refs w) \<and> effects (snd (disconnect t w)) = effects w"
    if "roomRef w = None \<or> (\<exists>r. roomRef w = Some r \<and> state r \<noteq> Connected)"
    using disconnect_without_connection [OF that, of t] by (simp add: reset_refs_def)
  moreover have "disconnect None w
                   = (None, reset_refs (w\<lparr>effects := effects w @ [RoomDisconnect]\<rparr>))
                 \<and> disconnect (Some e) w
                   = (Some e, w\<lparr>effects := effects w @ [RoomDisconnect]\<rparr>)"
    if "roomRef w = Some r \<and> state r = Connected"
    using that disconnect_connected(1) [of w r] disconnect_connected(2) [of w r e] by blast
  moreover have "roomRef w' = None \<and> \<not> isConnected w' \<and> \<not> hasSessionRef w'
          \<and> \<not> isCreatingRef w' \<and> audioElementsRef w' = []
          \<and> effects w' =
              (case roomRef w of
                 None \<Rightarrow> effects w
               | Some r \<Rightarrow>
                   if state r = Connected then effects w @ [RoomDisconnect] else effects w)
          \<and> disconnect t' w' = (None, w')
          \<and> effects (snd (disconnect t' w')) = effects w'"
    if res: "disconnect t w = (None, w')"
  proof -
    from disconnect_again [OF res, of t']
    have again: "disconnect t' w' = (None, w')" .
    then have "effects (snd (disconnect t' w')) = effects w'" by simp
    with disconnect_end_state [OF res] disconnect_effects [OF res] again
    show ?thesis by blast
  qed
  ultimately show ?thesis by blast
qed

theorem disconnect_idempotent_witness:
  "roomRef connected_instance = Some \<lparr>state = Connected\<rparr>
   \<and> fst (disconnect None connected_instance) = None
   \<and> effects (snd (disconnect None connected_instance))
       = effects connected_instance @ [RoomDisconnect]
   \<and> roomRef (snd (disconnect None connected_instance)) = None
   \<and> \<not> isConnected (snd (disconnect None connected_instance))
   \<and> \<not> hasSessionRef (snd (disconnect None connected_instance))
   \<and> disconnect (Some TypeError) (snd (disconnect None connected_instance))
       = (None, snd (disconnect None connected_instance))
   \<and> fst (disconnect (Some TypeError) connected_instance) = Some TypeError
   \<and> roomRef cached_instance = None
   \<and> disconnect (Some TypeError) cached_instance = (None, reset_refs cached_instance)"
proof -
  define w1 where "w1 = snd (disconnect None connected_instance)"
  have room: "roomRef connected_instance = Some \<lparr>state = Connected\<rparr>"
    by (simp add: connected_instance_def mountEffect_def connectAvatar_def new_instance_def
        avatar_response_def createAvatarSession_def json_def missing_connection_details_def
        getItem_def Let_def)
  then have conn: "roomRef connected_instance = Some \<lparr>state = Connected\<rparr>
                   \<and> state \<lparr>state = Connected\<rparr> = Connected"
    by simp
  from disconnect_idempotent
    [where w = connected_instance and r = "\<lparr>state = Connected\<rparr>" and e = TypeError] conn
  have c: "disconnect None connected_instance
             = (None, reset_refs (connected_instance
                  \<lparr>effects := effects connected_instance @ [RoomDisconnect]\<rparr>))"
    and d: "disconnect (Some TypeError) connected_instance
             = (Some TypeError, connected_instance
                  \<lparr>effects := effects connected_instance @ [RoomDisconnect]\<rparr>)"
    by blast+
  from c have first: "disconnect None connected_instance = (None, w1)"
    by (simp add: w1_def)
  have none: "roomRef cached_instance = None"
    by (simp add: cached_instance_def cached_storage_def mountEffect_def new_instance_def
        getItem_def)
  from disconnect_idempotent
    [where w = connected_instance and t = None and w' = w1 and t' = "Some TypeError"] first
  have a: "roomRef w1 = None \<and> \<not> isConnected w1 \<and> \<not> hasSessionRef w1
           \<and> disconnect (Some TypeError) w1 = (None, w1)"
    and e: "effects w1 =
              (case roomRef connected_instance of
                 None \<Rightarrow> effects connected_instance
               | Some r \<Rightarrow>
                   if state r = Connected then effects connected_instance @ [RoomDisconnect]
                   else effects connected_instance)"
    by blast+
  from e room have eff: "effects w1 = effects connected_instance @ [RoomDisconnect]"
    by simp
  from disconnect_idempotent [where w = cached_instance and t = "Some TypeError"] none
  have b: "disconnect (Some TypeError) cached_instance = (None, reset_refs cached_instance)"
    by blast
  have two: "fst (disconnect (Some TypeError) connected_instance) = Some TypeError"
    by (simp add: d)
  from first a b none room eff two show ?thesis by simp
qed

text \<open>
  C7, as the claim states it, fails on the code: \<^verbatim>\<open>disconnect()\<close> never touches session
  storage. An instance mounted with the token \<^verbatim>\<open>tok-1\<close> cached is disconnected; the
  token is still cached afterwards, and the next run of the mount effect records the
  cached session and makes no backend call and no room.
\<close>

theorem disconnect_keeps_cached_token:
  "fst (disconnect None cached_instance) = None
   \<and> getItem (sessionStorage (snd (disconnect None cached_instance))) ''avatarSessionToken''
       = Some ''tok-1''
   \<and> effects (mountEffect (Some avatar_response) None (snd (disconnect None cached_instance))) = []
   \<and> roomRef (mountEffect (Some avatar_response) None (snd (disconnect None cached_instance)))
       = None"
  by (simp add: cached_instance_def cached_storage_def mountEffect_def new_instance_def
      getItem_def disconnect_def reset_refs_def)

text \<open>
  C7, amended. After \<^verbatim>\<open>disconnect()\<close> resolves, the room handle is cleared and the
  connected flag and both guard flags are reset, while session storage is left as it was.
  The next run of the mount effect therefore requests a fresh real-time session exactly
  when no non-empty token is cached in session storage; with a token cached it only
  records that a session exists.
\<close>

theorem disconnect_resets_refs_not_storage:
  "disconnect t w = (None, w') \<Longrightarrow>
     roomRef w' = None \<and> \<not> isConnected w' \<and> \<not> hasSessionRef w' \<and> \<not> isCreatingRef w'
     \<and> sessionStorage w' = sessionStorage w
     \<and> (if truthy_str (getItem (sessionStorage w) ''avatarSessionToken'')
         then mountEffect fetched c w' = w'\<lparr>hasSessionRef := True\<rparr>
         else take (Suc (length (effects w'))) (effects (mountEffect fetched c w'))
                = effects w' @ [CreateAvatarSessionCall])"
proof -
  assume "disconnect t w = (None, w')"
  from disconnect_end_state [OF this]
  have end_state: "roomRef w' = None" "\<not> isConnected w'" "\<not> hasSessionRef w'"
    "\<not> isCreatingRef w'" "sessionStorage w' = sessionStorage w"
    by simp_all
  then show ?thesis
    by (simp add: mountEffect_def connectAvatar_calls_backend)
qed

theorem disconnect_resets_refs_not_storage_witness:
  "fst (disconnect None connected_instance) = None
   \<and> sessionStorage (snd (disconnect None connected_instance)) = []
   \<and> \<not> hasSessionRef (snd (disconnect None connected_instance))
   \<and> take (Suc (length (effects (snd (disconnect None connected_instance)))))
        (effects (mountEffect (Some avatar_response) None
                    (snd (disconnect None connected_instance))))
       = effects (snd (disconnect None connected_instance)) @ [CreateAvatarSessionCall]"
proof -
  define w1 where "w1 = snd (disconnect None connected_instance)"
  have first: "disconnect None connected_instance = (None, w1)"
    unfolding w1_def
    by (simp add: connected_instance_def mountEffect_def connectAvatar_def new_instance_def
        avatar_response_def createAvatarSession_def json_def missing_connection_details_def
        getItem_def disconnect_def Let_def)
  have storage: "sessionStorage connected_instance = []"
    by (simp add: connected_instance_def mountEffect_def connectAvatar_def new_instance_def
        avatar_response_def createAvatarSession_def json_def missing_connection_details_def
        getItem_def Let_def)
  from disconnect_resets_refs_not_storage [OF first, of "Some avatar_response" None] storage
  have a: "\<not> hasSessionRef w1 \<and> sessionStorage w1 = []
           \<and> take (Suc (length (effects w1)))
                 (effects (mountEffect (Some avatar_response) None w1))
               = effects w1 @ [CreateAvatarSessionCall]"
    by (simp add: getItem_def)
  from first a show ?thesis by simp
qed

text \<open>
  C10. When a non-empty token is cached in session storage as the controller mounts, the
  mount effect only sets \<^verbatim>\<open>hasSessionRef\<close>: no backend call, no room, nothing else. The room
  handle is null and the connected flag false, and every \<^verbatim>\<open>speak(text)\<close> on the instance,
  whatever the text and however many, resolves after a warning and publishes nothing.
\<close>

theorem cached_token_mount_is_inert:
  "truthy_str (getItem storage ''avatarSessionToken'') \<Longrightarrow>
     mountEffect fetched c (new_instance storage) = (new_instance storage)\<lparr>hasSessionRef := True\<rparr>
     \<and> roomRef (mountEffect fetched c (new_instance storage)) = None
     \<and> \<not> isConnected (mountEffect fetched c (new_instance storage))
     \<and> effects (mountEffect fetched c (new_instance storage)) = []
     \<and> speak_all xs (mountEffect fetched c (new_instance storage))
         = (None, (mountEffect fetched c (new_instance storage))
              \<lparr>effects :=
                 map (\<lambda>x. ConsoleWarn ''Room not initialized. Cannot send speak event.'') xs\<rparr>)"
proof -
  assume cached: "truthy_str (getItem storage ''avatarSessionToken'')"
  let ?w = "mountEffect fetched c (new_instance storage)"
  from cached have w: "?w = (new_instance storage)\<lparr>hasSessionRef := True\<rparr>"
    by (simp add: mountEffect_def new_instance_def)
  then have fields: "roomRef ?w = None" "\<not> isConnected ?w" "effects ?w = []"
    by (simp_all add: new_instance_def)
  from speak_all_without_room [OF fields(1), of xs] fields(3)
  have "speak_all xs ?w =
          (None, ?w\<lparr>effects :=
                      map (\<lambda>x. ConsoleWarn ''Room not initialized. Cannot send speak event.'') xs\<rparr>)"
    by simp
  with w fields show ?thesis by simp
qed

theorem cached_token_mount_is_inert_witness:
  "truthy_str (getItem cached_storage ''avatarSessionToken'')
   \<and> roomRef cached_instance = None
   \<and> \<not> isConnected cached_instance
   \<and> effects cached_instance = []
   \<and> effects (snd (speak_all [(''Hello'', None), (''Q1'', Some TypeError)] cached_instance))
       = [ConsoleWarn ''Room not initialized. Cannot send speak event.'',
          ConsoleWarn ''Room not initialized. Cannot send speak event.'']"
proof -
  have cached: "truthy_str (getItem cached_storage ''avatarSessionToken'')"
    by (simp add: cached_storage_def getItem_def)
  note inst = cached_token_mount_is_inert
    [OF cached, of "Some avatar_response" None "[(''Hello'', None), (''Q1'', Some TypeError)]",
     folded cached_instance_def]
  from inst have a: "roomRef cached_instance = None" "\<not> isConnected cached_instance"
    "effects cached_instance = []"
    by blast+
  from inst have b: "speak_all [(''Hello'', None), (''Q1'', Some TypeError)] cached_instance
      = (None, cached_instance
           \<lparr>effects :=
              map (\<lambda>x. ConsoleWarn ''Room not initialized. Cannot send speak event.'')
                [(''Hello'', None), (''Q1'', Some TypeError)]\<rparr>)"
    by blast
  from cached a show ?thesis by (simp only: b) simp
qed

section \<open>Facts about the interview state machine\<close>

lemma playTTSAudio_eq:
  "playTTSAudio text pb s =
     (None, s\<lparr>calls := calls s @ [SpeakTTSCall text],
               audioRef := audioRef (snd (playTTSAudio text pb s))\<rparr>)"
  by (cases "fst pb"; cases "snd pb"; cases "audioRef s")
     (auto simp: playTTSAudio_def playTTSAudio_try_def Let_def split: option.splits)

lemma playTTSAudio_same_flow:
  "snd (playTTSAudio text pb s) =
     (snd (playTTSAudio text pb' s))\<lparr>audioRef := audioRef (snd (playTTSAudio text pb s))\<rparr>"
proof -
  have "(snd (playTTSAudio text pb' s))\<lparr>audioRef := audioRef (snd (playTTSAudio text pb s))\<rparr>
        = s\<lparr>calls := calls s @ [SpeakTTSCall text],
             audioRef := audioRef (snd (playTTSAudio text pb s))\<rparr>"
    by (subst playTTSAudio_eq) simp
  also have "\<dots> = snd (playTTSAudio text pb s)"
    by (subst (2) playTTSAudio_eq) simp
  finally show ?thesis by (rule sym)
qed

lemma handle_no_session: "sessionId s = None \<Longrightarrow> handleUserResponse b submitted pb s = s"
  by (simp add: handleUserResponse_def)

lemma handle_submit_failed:
  "sessionId s = Some sid \<Longrightarrow>
   handleUserResponse b (Inl e) pb s =
     s\<lparr>calls := calls s @ [SubmitAnswerCall sid b], interviewState := Idle\<rparr>"
  by (simp add: handleUserResponse_def)

lemma handle_complete:
  assumes "sessionId s = Some sid" and "is_complete data"
  shows "handleUserResponse b (Inr data) pb s =
     s\<lparr>calls := calls s @ [SubmitAnswerCall sid b], interviewState := Completing,
       timeouts := timeouts s @ [(2500, CompleteAndFetchResults sid)]\<rparr>"
  using assms by (simp add: handleUserResponse_def)

lemma handle_no_next:
  assumes "sessionId s = Some sid" and "\<not> is_complete data"
    and "\<not> truthy_str (next_question data)"
  shows "handleUserResponse b (Inr data) pb s = s\<lparr>calls := calls s @ [SubmitAnswerCall sid b]\<rparr>"
  using assms by (simp add: handleUserResponse_def)

lemma handle_next:
  assumes "sessionId s = Some sid" and "\<not> is_complete data"
    and "next_question data = Some q" and "q \<noteq> []"
  shows "handleUserResponse b (Inr data) pb s =
     s\<lparr>calls := calls s @ [SubmitAnswerCall sid b, SpeakTTSCall q],
       currentQuestion := q, currentQuestionIndex := question_index data,
       interviewState := Asking,
       audioRef := audioRef (handleUserResponse b (Inr data) pb s),
       timeouts := timeouts s @ [(1000, SettleToIdle)]\<rparr>"
  using assms
  apply (simp add: handleUserResponse_def Let_def)
  apply (subst playTTSAudio_eq)
  apply (subst (2) playTTSAudio_eq)
  apply simp
  done

lemma handle_same_flow:
  "handleUserResponse b submitted pb s =
     (handleUserResponse b submitted pb' s)
       \<lparr>audioRef := audioRef (handleUserResponse b submitted pb s)\<rparr>"
proof (cases "sessionId s")
  case None
  then show ?thesis by (simp add: handle_no_session)
next
  case (Some sid)
  show ?thesis
  proof (cases submitted)
    case (Inl e)
    with Some show ?thesis by (simp add: handle_submit_failed)
  next
    case (Inr data)
    show ?thesis
    proof (cases "is_complete data")
      case True
      with Some Inr show ?thesis by (simp add: handle_complete)
    next
      case False
      show ?thesis
      proof (cases "truthy_str (next_question data)")
        case False
        with Some Inr \<open>\<not> is_complete data\<close> show ?thesis by (simp add: handle_no_next)
      next
        case True
        then obtain q where q: "next_question data = Some q" "q \<noteq> []"
          by (cases "next_question data") auto
        let ?a = "audioRef (handleUserResponse b (Inr data) pb s)"
        let ?r = "\<lambda>x. s\<lparr>calls := calls s @ [SubmitAnswerCall sid b, SpeakTTSCall q],
                       currentQuestion := q, currentQuestionIndex := question_index data,
                       interviewState := Asking, audioRef := x,
                       timeouts := timeouts s @ [(1000, SettleToIdle)]\<rparr>"
        have A: "handleUserResponse b (Inr data) pb s = ?r ?a"
          by (rule handle_next [OF Some False q])
        have B: "handleUserResponse b (Inr data) pb' s
                 = ?r (audioRef (handleUserResponse b (Inr data) pb' s))"
          by (rule handle_next [OF Some False q])
        have "(handleUserResponse b (Inr data) pb' s)\<lparr>audioRef := ?a\<rparr>
              = (?r (audioRef (handleUserResponse b (Inr data) pb' s)))\<lparr>audioRef := ?a\<rparr>"
          by (rule arg_cong [OF B])
        also have "\<dots> = ?r ?a" by simp
        also have "\<dots> = handleUserResponse b (Inr data) pb s" by (rule A [symmetric])
        finally show ?thesis using Inr by simp
      qed
    qed
  qed
qed

lemma handle_index:
  assumes "sessionId s = Some sid"
  shows "currentQuestionIndex (handleUserResponse b (Inl e) pb s) = currentQuestionIndex s"
    and "currentQuestionIndex (handleUserResponse b (Inr data) pb s) =
           (if \<not> is_complete data \<and> truthy_str (next_question data)
            then question_index data else currentQuestionIndex s)"
proof -
  show "currentQuestionIndex (handleUserResponse b (Inl e) pb s) = currentQuestionIndex s"
    using assms by (simp add: handle_submit_failed)
  show "currentQuestionIndex (handleUserResponse b (Inr data) pb s) =
           (if \<not> is_complete data \<and> truthy_str (next_question data)
            then question_index data else currentQuestionIndex s)"
  proof (cases "is_complete data")
    case True
    with assms show ?thesis by (simp add: handle_complete)
  next
    case False
    show ?thesis
    proof (cases "truthy_str (next_question data)")
      case no_next: False
      with assms False show ?thesis by (simp add: handle_no_next)
    next
      case True
      then obtain q where q: "next_question data = Some q" "q \<noteq> []"
        by (cases "next_question data") auto
      have "currentQuestionIndex (handleUserResponse b (Inr data) pb s) = question_index data"
        by (subst handle_next [OF assms False q]) simp
      with False True show ?thesis by simp
    qed
  qed
qed

lemma handle_sessionId:
  "sessionId (handleUserResponse b submitted pb s) = sessionId s"
proof (cases "sessionId s")
  case None
  then show ?thesis by (simp add: handle_no_session)
next
  case (Some sid)
  show ?thesis
  proof (cases submitted)
    case (Inl e)
    with Some show ?thesis by (simp add: handle_submit_failed)
  next
    case (Inr data)
    show ?thesis
    proof (cases "is_complete data")
      case True
      with Some Inr show ?thesis by (simp add: handle_complete)
    next
      case False
      show ?thesis
      proof (cases "truthy_str (next_question data)")
        case no_next: False
        with Some Inr False show ?thesis by (simp add: handle_no_next)
      next
        case True
        then obtain q where q: "next_question data = Some q" "q \<noteq> []"
          by (cases "next_question data") auto
        have "sessionId (handleUserResponse b (Inr data) pb s) = sessionId s"
          by (subst handle_next [OF Some False q]) simp
        with Inr show ?thesis by simp
      qed
    qed
  qed
qed

lemma initializeSession_same_flow:
  "fst (initializeSession created question pb s) = fst (initializeSession created question pb' s)
   \<and> snd (initializeSession created question pb s) =
       (snd (initializeSession created question pb' s))
         \<lparr>audioRef := audioRef (snd (initializeSession created question pb s))\<rparr>"
proof (cases created)
  case (Inl e)
  then show ?thesis by (simp add: initializeSession_def)
next
  case created: (Inr response)
  show ?thesis
  proof (cases question)
    case (Inl e)
    with created show ?thesis by (simp add: initializeSession_def)
  next
    case (Inr q)
    let ?s2 = "s\<lparr>isInitializing := True, apiConnectionError := False,
                  sessionId := Some (session_id response), weekData := Some (week response),
                  calls := calls s @ [CreateInterviewSessionCall WEEK_NUMBER,
                                      GetQuestionCall (session_id response) 0],
                  currentQuestion := question_text q, currentQuestionIndex := 0\<rparr>"
    let ?fin = "\<lambda>x. x\<lparr>interviewState := Idle, apiConnectionError := False,
                        isInitializing := False\<rparr>"
    have shape: "initializeSession created question p s
                   = (True, ?fin (snd (playTTSAudio (question_text q) p ?s2)))" for p
      using created Inr
      apply (simp add: initializeSession_def Let_def)
      apply (subst playTTSAudio_eq)
      apply (subst (2) playTTSAudio_eq)
      apply simp
      done
    have "?fin (snd (playTTSAudio (question_text q) pb ?s2))
          = (?fin (snd (playTTSAudio (question_text q) pb' ?s2)))
              \<lparr>audioRef := audioRef (snd (playTTSAudio (question_text q) pb ?s2))\<rparr>"
      by (subst playTTSAudio_same_flow [of _ pb _ pb']) simp
    then show ?thesis by (simp add: shape)
  qed
qed

lemma sorted_remdups_adj_iff: "sorted (remdups_adj xs) = sorted (xs :: int list)"
  by (induction xs rule: remdups_adj.induct) auto

lemma index_trace_remdups:
  "sessionId s = Some sid \<Longrightarrow>
   remdups_adj (currentQuestionIndex s # index_trace turns s)
     = remdups_adj (currentQuestionIndex s # assigned_indices turns)"
proof (induction turns arbitrary: s)
  case Nil
  then show ?case by simp
next
  case (Cons t turns)
  obtain b submitted pb where t: "t = (b, submitted, pb)" by (cases t)
  let ?s' = "handleUserResponse b submitted pb s"
  have "sessionId ?s' = Some sid" using Cons.prems by (simp add: handle_sessionId)
  from Cons.IH [OF this]
  have IH: "remdups_adj (currentQuestionIndex ?s' # index_trace turns ?s')
              = remdups_adj (currentQuestionIndex ?s' # assigned_indices turns)" .
  show ?case
  proof (cases submitted)
    case (Inl e)
    then have "currentQuestionIndex ?s' = currentQuestionIndex s"
      using handle_index(1) [OF Cons.prems] by simp
    with IH t Inl show ?thesis by (simp add: Let_def)
  next
    case (Inr data)
    then have idx: "currentQuestionIndex ?s' =
           (if \<not> is_complete data \<and> truthy_str (next_question data)
            then question_index data else currentQuestionIndex s)"
      using handle_index(2) [OF Cons.prems] by simp
    show ?thesis
    proof (cases "\<not> is_complete data \<and> truthy_str (next_question data)")
      case True
      with idx have "currentQuestionIndex ?s' = question_index data" by simp
      moreover from True t Inr
      have "assigned_indices (t # turns) = question_index data # assigned_indices turns"
        by simp
      ultimately show ?thesis using IH t Inr by (simp add: Let_def)
    next
      case False
      with idx have "currentQuestionIndex ?s' = currentQuestionIndex s" by simp
      moreover from False t Inr
      have "assigned_indices (t # turns) = assigned_indices turns"
        by auto
      ultimately show ?thesis using IH t Inr by (simp add: Let_def)
    qed
  qed
qed

lemma scenario_session_eval:
  "scenario_session =
     \<lparr>hasStarted = True, hasFinished = False, isListening = False,
      currentQuestionIndex = 0, timer = 0, interviewState = Idle, sessionId = Some ''s1'',
      weekData = Some scenario_week, currentQuestion = ''Q1'', sessionResults = None,
      apiConnectionError = False, isInitializing = False, mediaRecorderRef = None,
      audioChunksRef = [], audioRef = Some ''https://cdn.example/q.mp3'',
      calls = [CreateInterviewSessionCall 4, GetQuestionCall ''s1'' 0, SpeakTTSCall ''Q1''],
      timeouts = []\<rparr>"
  by (simp add: scenario_session_def startClicked_def initializeSession_def playTTSAudio_def
      playTTSAudio_try_def playback_ok_def initial_interview_def WEEK_NUMBER_def Let_def)

text \<open>
  C1. When \<^verbatim>\<open>submitAnswer\<close> resolves with \<^verbatim>\<open>is_complete\<close> true, the phase becomes
  \<^verbatim>\<open>completing\<close> and one callback is scheduled 2500 ms later; until it fires only the
  submission has been issued. When it fires and both requests succeed, \<^verbatim>\<open>completeSession\<close>
  and then \<^verbatim>\<open>getSessionResults\<close> have been called once each for the session, nothing is
  thrown, the finished flag is set and the fetched results are stored, and the timeout is
  consumed. That state is terminal: a tap on the microphone and a tick of the clock leave
  it as it is.
\<close>

theorem completion_flow:
  assumes "sessionId s = Some sid" and "is_complete data"
  shows "let s1 = handleUserResponse b (Inr data) pb s;
             fired = fire_timeout (length (timeouts s)) (Inr ack) (Inr results) s1;
             s2 = snd fired
         in interviewState s1 = Completing
            \<and> timeouts s1 = timeouts s @ [(2500, CompleteAndFetchResults sid)]
            \<and> calls s1 = calls s @ [SubmitAnswerCall sid b]
            \<and> fst fired = None
            \<and> calls s2 = calls s1 @ [CompleteSessionCall sid, GetSessionResultsCall sid]
            \<and> hasFinished s2 \<and> sessionResults s2 = Some results
            \<and> interviewState s2 = Completing \<and> timeouts s2 = timeouts s
            \<and> toggleMic mic s2 = s2 \<and> tick s2 = s2"
  using assms
  by (simp add: handle_complete fire_timeout_def run_callback_def completeAndFetchResults_def
      toggleMic_def tick_def Let_def)

theorem completion_flow_witness:
  "sessionId scenario_session = Some ''s1'' \<and> is_complete final_answer
   \<and> interviewState (handleUserResponse [3] (Inr final_answer) playback_ok scenario_session)
       = Completing
   \<and> timeouts (handleUserResponse [3] (Inr final_answer) playback_ok scenario_session)
       = [(2500, CompleteAndFetchResults ''s1'')]
   \<and> calls (snd (fire_timeout 0 (Inr True) (Inr scenario_results)
                (handleUserResponse [3] (Inr final_answer) playback_ok scenario_session)))
       = [CreateInterviewSessionCall 4, GetQuestionCall ''s1'' 0, SpeakTTSCall ''Q1'',
          SubmitAnswerCall ''s1'' [3], CompleteSessionCall ''s1'', GetSessionResultsCall ''s1'']
   \<and> hasFinished (snd (fire_timeout 0 (Inr True) (Inr scenario_results)
                (handleUserResponse [3] (Inr final_answer) playback_ok scenario_session)))
   \<and> sessionResults (snd (fire_timeout 0 (Inr True) (Inr scenario_results)
                (handleUserResponse [3] (Inr final_answer) playback_ok scenario_session)))
       = Some scenario_results"
proof -
  have sid: "sessionId scenario_session = Some ''s1''"
    and none: "timeouts scenario_session = []"
    and before: "calls scenario_session
                 = [CreateInterviewSessionCall 4, GetQuestionCall ''s1'' 0, SpeakTTSCall ''Q1'']"
    by (simp_all add: scenario_session_eval)
  have fin: "is_complete final_answer" by (simp add: final_answer_def)
  from completion_flow [OF sid fin, of "[3]" playback_ok True scenario_results None]
  show ?thesis using sid fin none before by (simp add: Let_def)
qed

text \<open>
  C2. The claim: every settlement of an answer turn moves the phase out of
  \<^verbatim>\<open>listening\<close>/\<^verbatim>\<open>processing\<close>. On the code, in the session of scenario 1, the user
  starts recording, a chunk arrives, the user stops, and \<^verbatim>\<open>submitAnswer\<close> resolves with
  \<^verbatim>\<open>is_complete: false\<close> and \<^verbatim>\<open>next_question: null\<close>: the submission has been issued, the
  phase is still \<^verbatim>\<open>processing\<close>, and no timeout is pending that could change it.
\<close>

theorem answer_turn_stays_processing:
  "interviewState (toggleMic None scenario_session) = Listening
   \<and> interviewState (toggleMic None (ondataavailable 3 (toggleMic None scenario_session)))
       = Processing
   \<and> interviewState
        (onstop (Inr stalled_answer) playback_ok
           (toggleMic None (ondataavailable 3 (toggleMic None scenario_session))))
       = Processing
   \<and> timeouts
        (onstop (Inr stalled_answer) playback_ok
           (toggleMic None (ondataavailable 3 (toggleMic None scenario_session))))
       = []
   \<and> calls
        (onstop (Inr stalled_answer) playback_ok
           (toggleMic None (ondataavailable 3 (toggleMic None scenario_session))))
       = calls scenario_session @ [SubmitAnswerCall ''s1'' [3]]"
  by (simp add: scenario_session_eval toggleMic_def ondataavailable_def onstop_def
      handleUserResponse_def stalled_answer_def Let_def)

text \<open>
  C4. When \<^verbatim>\<open>submitAnswer\<close> rejects, the phase returns to \<^verbatim>\<open>idle\<close> and the question text
  and \<^verbatim>\<open>currentQuestionIndex\<close> are as before: apart from the record of the call that was
  issued, the phase is the only thing that changes.
\<close>

theorem submit_failure_returns_to_idle:
  assumes "sessionId s = Some sid"
  shows "interviewState (handleUserResponse b (Inl e) pb s) = Idle
         \<and> currentQuestion (handleUserResponse b (Inl e) pb s) = currentQuestion s
         \<and> currentQuestionIndex (handleUserResponse b (Inl e) pb s) = currentQuestionIndex s
         \<and> handleUserResponse b (Inl e) pb s
             = s\<lparr>calls := calls s @ [SubmitAnswerCall sid b], interviewState := Idle\<rparr>"
  using assms by (simp add: handle_submit_failed)

theorem submit_failure_returns_to_idle_witness:
  "sessionId (toggleMic None (ondataavailable 3 (toggleMic None scenario_session))) = Some ''s1''
   \<and> interviewState (toggleMic None (ondataavailable 3 (toggleMic None scenario_session)))
       = Processing
   \<and> interviewState
        (handleUserResponse [3] (Inl FetchError) playback_ok
           (toggleMic None (ondataavailable 3 (toggleMic None scenario_session))))
       = Idle
   \<and> currentQuestion
        (handleUserResponse [3] (Inl FetchError) playback_ok
           (toggleMic None (ondataavailable 3 (toggleMic None scenario_session))))
       = ''Q1''
   \<and> currentQuestionIndex
        (handleUserResponse [3] (Inl FetchError) playback_ok
           (toggleMic None (ondataavailable 3 (toggleMic None scenario_session))))
       = 0"
proof -
  let ?s = "toggleMic None (ondataavailable 3 (toggleMic None scenario_session))"
  have s: "sessionId ?s = Some ''s1''" "interviewState ?s = Processing"
    "currentQuestion ?s = ''Q1''" "currentQuestionIndex ?s = 0"
    by (simp_all add: scenario_session_eval toggleMic_def ondataavailable_def)
  from submit_failure_returns_to_idle [OF s(1), of "[3]" FetchError playback_ok]
  have "interviewState (handleUserResponse [3] (Inl FetchError) playback_ok ?s) = Idle"
    and "currentQuestion (handleUserResponse [3] (Inl FetchError) playback_ok ?s)
         = currentQuestion ?s"
    and "currentQuestionIndex (handleUserResponse [3] (Inl FetchError) playback_ok ?s)
         = currentQuestionIndex ?s"
    by blast+
  with s show ?thesis by simp
qed

text \<open>
  C8. \<^verbatim>\<open>playTTSAudio\<close> never rejects, whatever the text and wherever the playback fails:
  it records the speech request and touches nothing but the audio element. The
  orchestrator goes on the same way whatever the playback did: for any two playback
  settlements, \<^verbatim>\<open>handleUserResponse\<close> and \<^verbatim>\<open>initializeSession\<close> give the same result and
  leave states that differ at most in the audio element.
\<close>

theorem playback_failure_is_absorbed:
  "fst (playTTSAudio text pb s) = None
   \<and> snd (playTTSAudio text pb s)
       = s\<lparr>calls := calls s @ [SpeakTTSCall text],
            audioRef := audioRef (snd (playTTSAudio text pb s))\<rparr>
   \<and> handleUserResponse b submitted pb s
       = (handleUserResponse b submitted pb' s)
           \<lparr>audioRef := audioRef (handleUserResponse b submitted pb s)\<rparr>
   \<and> fst (initializeSession created question pb s)
       = fst (initializeSession created question pb' s)
   \<and> snd (initializeSession created question pb s)
       = (snd (initializeSession created question pb' s))
           \<lparr>audioRef := audioRef (snd (initializeSession created question pb s))\<rparr>"
proof -
  have "playTTSAudio text pb s
        = (None, s\<lparr>calls := calls s @ [SpeakTTSCall text],
                    audioRef := audioRef (snd (playTTSAudio text pb s))\<rparr>)"
    by (rule playTTSAudio_eq)
  then have "fst (playTTSAudio text pb s) = None"
    and "snd (playTTSAudio text pb s)
         = s\<lparr>calls := calls s @ [SpeakTTSCall text],
              audioRef := audioRef (snd (playTTSAudio text pb s))\<rparr>"
    by (metis fst_conv, metis snd_conv)
  with handle_same_flow [of b submitted pb s pb']
    initializeSession_same_flow [of created question pb s pb']
  show ?thesis by blast
qed

text \<open>
  C9, as the claim states it, fails on the code: \<^verbatim>\<open>currentQuestionIndex\<close> is assigned
  whatever \<^verbatim>\<open>question_index\<close> the server returns. In the session of scenario 1 two answers
  come back with the indices 2 and then 1, and the index goes 0, 2, 1.
\<close>

theorem index_trace_decreases:
  "currentQuestionIndex scenario_session = 0
   \<and> index_trace regressing_turns scenario_session = [2, 1]
   \<and> \<not> sorted (currentQuestionIndex scenario_session
                 # index_trace regressing_turns scenario_session)"
  by (simp add: scenario_session_eval regressing_turns_def next_answer_def
      handleUserResponse_def playTTSAudio_def playTTSAudio_try_def playback_ok_def Let_def)

text \<open>
  C9, amended. Within a session, \<^verbatim>\<open>currentQuestionIndex\<close> is left as it is when
  \<^verbatim>\<open>submitAnswer\<close> rejects, and when it resolves with the completion flag or without a
  next question; on every other result it is set to the \<^verbatim>\<open>question_index\<close> the server
  returned, whatever that is. Over any sequence of answer turns the values it takes are
  therefore, repetitions apart, the starting index followed by those assigned indices, and
  it is non-decreasing exactly when the assigned indices are non-decreasing and not below
  the index the sequence starts from (0 after initialisation).
\<close>

theorem index_follows_server:
  assumes "sessionId s = Some sid"
  shows "currentQuestionIndex (handleUserResponse b (Inl e) pb s) = currentQuestionIndex s
         \<and> currentQuestionIndex (handleUserResponse b (Inr data) pb s) =
             (if \<not> is_complete data \<and> truthy_str (next_question data)
              then question_index data else currentQuestionIndex s)
         \<and> remdups_adj (currentQuestionIndex s # index_trace turns s)
             = remdups_adj (currentQuestionIndex s # assigned_indices turns)
         \<and> sorted (currentQuestionIndex s # index_trace turns s)
             = sorted (currentQuestionIndex s # assigned_indices turns)"
proof -
  have eq: "remdups_adj (currentQuestionIndex s # index_trace turns s)
            = remdups_adj (currentQuestionIndex s # assigned_indices turns)"
    by (rule index_trace_remdups [OF assms])
  have "sorted (currentQuestionIndex s # index_trace turns s)
        = sorted (remdups_adj (currentQuestionIndex s # index_trace turns s))"
    by (rule sorted_remdups_adj_iff [symmetric])
  also have "\<dots> = sorted (remdups_adj (currentQuestionIndex s # assigned_indices turns))"
    by (rule arg_cong [OF eq])
  also have "\<dots> = sorted (currentQuestionIndex s # assigned_indices turns)"
    by (rule sorted_remdups_adj_iff)
  finally have srt: "sorted (currentQuestionIndex s # index_trace turns s)
                     = sorted (currentQuestionIndex s # assigned_indices turns)" .
  from handle_index(1) [OF assms, of b e pb] handle_index(2) [OF assms, of b data pb] eq srt
  show ?thesis by blast
qed

theorem index_follows_server_witness:
  "sessionId scenario_session = Some ''s1''
   \<and> currentQuestionIndex scenario_session = 0
   \<and> currentQuestionIndex
        (handleUserResponse [5] (Inr (stalled_answer\<lparr>question_index := 7\<rparr>)) playback_ok
           scenario_session) = 0
   \<and> currentQuestionIndex
        (handleUserResponse [3] (Inr next_answer) playback_blocked scenario_session) = 1
   \<and> assigned_indices advancing_turns = [1, 2]
   \<and> index_trace advancing_turns scenario_session = [1, 1, 1, 2, 2]
   \<and> sorted (currentQuestionIndex scenario_session # index_trace advancing_turns scenario_session)"
proof -
  have sid: "sessionId scenario_session = Some ''s1''"
    and idx: "currentQuestionIndex scenario_session = 0"
    by (simp_all add: scenario_session_eval)
  have asg: "assigned_indices advancing_turns = [1, 2]"
    by (simp add: advancing_turns_def next_answer_def stalled_answer_def final_answer_def)
  have tr: "index_trace advancing_turns scenario_session = [1, 1, 1, 2, 2]"
    by (simp add: scenario_session_eval advancing_turns_def next_answer_def stalled_answer_def
        final_answer_def handleUserResponse_def playTTSAudio_def playTTSAudio_try_def
        playback_ok_def playback_blocked_def Let_def)
  from index_follows_server
    [OF sid, where b = "[5]" and pb = playback_ok
       and data = "stalled_answer\<lparr>question_index := 7\<rparr>" and turns = advancing_turns]
  have stalled: "currentQuestionIndex
        (handleUserResponse [5] (Inr (stalled_answer\<lparr>question_index := 7\<rparr>)) playback_ok
           scenario_session) = 0"
    and srt: "sorted (currentQuestionIndex scenario_session
                       # index_trace advancing_turns scenario_session)
              = sorted (currentQuestionIndex scenario_session # assigned_indices advancing_turns)"
    by (simp_all add: stalled_answer_def idx)
  from index_follows_server
    [OF sid, where b = "[3]" and pb = playback_blocked and data = next_answer]
  have nxt: "currentQuestionIndex
        (handleUserResponse [3] (Inr next_answer) playback_blocked scenario_session) = 1"
    by (simp add: next_answer_def)
  have "sorted (currentQuestionIndex scenario_session
                 # index_trace advancing_turns scenario_session)"
    by (subst srt) (simp add: asg idx)
  with sid idx stalled nxt asg tr show ?thesis by blast
qed

end
